theory Spec2Isabelle
  imports Main "HOL-Library.Multiset"
begin

section \<open>Data model (database/models.py)\<close>

text \<open>
  The three tables the pairing service reads and writes. Columns that no modelled
  function reads (admin and group ids, title, photo, budget, creation time) are left out.
  A \<open>DateTime\<close> column is an \<open>int\<close> (microseconds, the resolution of Python's
  \<open>datetime\<close>); a nullable text column is a \<open>string option\<close>. The primary key
  \<open>id\<close> of each table is prefixed by the table, as record fields share one name space.
\<close>

record Event =
  ev_id :: int
  status :: string
  registration_end :: int
  shipping_deadline :: int

record Participant =
  p_id :: int
  p_event_id :: int
  telegram_id :: int
  username :: "string option"
  first_name :: string
  last_name :: "string option"
  wishes :: "string option"
  address :: "string option"
  delivery_methods :: "string option"

record SantaPair =
  sp_id :: int
  sp_event_id :: int
  santa_id :: int
  receiver_id :: int

record database =
  events :: "Event list"
  participants :: "Participant list"
  santa_pairs :: "SantaPair list"

text \<open>
  A SQLAlchemy session (\<open>autocommit=False\<close>): \<open>store\<close> is what is durably committed,
  \<open>work\<close> is the session's view with its uncommitted changes. \<open>commit\<close> may raise (the
  argument says whether this call does), leaving both parts as they are; \<open>rollback\<close>
  discards the uncommitted changes only.
\<close>

record session =
  store :: database
  work :: database

datatype db_error = CommitFailed

definition SessionLocal :: "database \<Rightarrow> session" where
  "SessionLocal d = \<lparr>store = d, work = d\<rparr>"

definition db_commit :: "bool \<Rightarrow> session \<Rightarrow> db_error option \<times> session" where
  "db_commit raises s = (if raises then (Some CommitFailed, s) else (None, s\<lparr>store := work s\<rparr>))"

definition db_rollback :: "session \<Rightarrow> session" where
  "db_rollback s = s\<lparr>work := store s\<rparr>"

definition db_close :: "session \<Rightarrow> database" where
  "db_close s = store s"

text \<open>Queries of the session: rows of one event, and primary-key lookups.\<close>

definition participants_of :: "database \<Rightarrow> int \<Rightarrow> Participant list" where
  "participants_of d event_id = filter (\<lambda>p. p_event_id p = event_id) (participants d)"

definition pairs_of :: "database \<Rightarrow> int \<Rightarrow> SantaPair list" where
  "pairs_of d event_id = filter (\<lambda>sp. sp_event_id sp = event_id) (santa_pairs d)"

definition get_event :: "database \<Rightarrow> int \<Rightarrow> Event option" where
  "get_event d event_id = find (\<lambda>e. ev_id e = event_id) (events d)"

definition get_participant :: "database \<Rightarrow> int \<Rightarrow> Participant option" where
  "get_participant d participant_id = find (\<lambda>p. p_id p = participant_id) (participants d)"

definition set_status :: "int \<Rightarrow> string \<Rightarrow> database \<Rightarrow> database" where
  "set_status event_id st d =
     d\<lparr>events := map (\<lambda>e. if ev_id e = event_id then e\<lparr>status := st\<rparr> else e) (events d)\<rparr>"

text \<open>
  The integer primary key of a new row of \<open>santa_pairs\<close>: one more than the largest
  key in the table (1 in an empty table).
\<close>

definition next_pair_id :: "database \<Rightarrow> int" where
  "next_pair_id d = fold max (map sp_id (santa_pairs d)) 0 + 1"

section \<open>database/crud.py\<close>

text \<open>
  \<open>create_santa_pair\<close>: \<open>db.add(db_pair); db.commit(); db.refresh(db_pair)\<close>. The row
  is committed by this very call; when the commit raises, the exception leaves the
  function with the row still pending in the session.
\<close>

definition create_santa_pair ::
  "bool \<Rightarrow> session \<Rightarrow> int \<Rightarrow> int \<Rightarrow> int \<Rightarrow> db_error option \<times> session" where
  "create_santa_pair raises s event_id santa receiver =
     (let db_pair = \<lparr>sp_id = next_pair_id (work s), sp_event_id = event_id,
                     santa_id = santa, receiver_id = receiver\<rparr>;
          s1 = s\<lparr>work := (work s)\<lparr>santa_pairs := santa_pairs (work s) @ [db_pair]\<rparr>\<rparr>
      in db_commit raises s1)"

text \<open>
  \<open>get_events_with_active_registration\<close> and \<open>get_events_with_upcoming_deadline\<close>:
  the two differ in the column they compare. \<open>if min_time_left:\<close> and \<open>if status:\<close>
  skip the filter for \<open>None\<close> and for a falsy value (a zero \<open>timedelta\<close>, an empty string).
\<close>

definition days :: "int \<Rightarrow> int" where
  "days n = n * 86400000000"

definition minutes :: "int \<Rightarrow> int" where
  "minutes n = n * 60000000"

definition in_window :: "int \<Rightarrow> int \<Rightarrow> int option \<Rightarrow> int \<Rightarrow> bool" where
  "in_window now time_left min_time_left t =
     (t \<le> now + time_left \<and> t > now - days 1 \<and>
      (case min_time_left of None \<Rightarrow> True
       | Some m \<Rightarrow> if m \<noteq> 0 then t \<ge> now + m else True))"

definition status_matches :: "string option \<Rightarrow> Event \<Rightarrow> bool" where
  "status_matches st e =
     (case st of None \<Rightarrow> True | Some v \<Rightarrow> if v \<noteq> [] then status e = v else True)"

definition get_events_with_active_registration ::
  "int \<Rightarrow> database \<Rightarrow> int \<Rightarrow> int option \<Rightarrow> string option \<Rightarrow> Event list" where
  "get_events_with_active_registration now d time_left min_time_left st =
     filter (\<lambda>e. in_window now time_left min_time_left (registration_end e) \<and> status_matches st e)
       (events d)"

definition get_events_with_upcoming_deadline ::
  "int \<Rightarrow> database \<Rightarrow> int \<Rightarrow> int option \<Rightarrow> string option \<Rightarrow> Event list" where
  "get_events_with_upcoming_deadline now d time_left min_time_left st =
     filter (\<lambda>e. in_window now time_left min_time_left (shipping_deadline e) \<and> status_matches st e)
       (events d)"

section \<open>services/pairing.py: the assignment\<close>

text \<open>
  Lines 38 to 43 of \<open>generate_pairs\<close>: \<open>receivers\<close> is a copy of the shuffled ids;
  for an odd length its entries at 0 and at \<open>len // 2\<close> are exchanged (the right-hand
  side of the tuple assignment is read first, then index \<open>len // 2\<close> is written, then
  index 0); then the list is reversed. Both indices are in range whenever the length is odd.
\<close>

definition swap_middle :: "'a list \<Rightarrow> 'a list" where
  "swap_middle receivers =
     (if length receivers mod 2 \<noteq> 0
      then (receivers[length receivers div 2 := receivers ! 0])
             [0 := receivers ! (length receivers div 2)]
      else receivers)"

definition make_receivers :: "'a list \<Rightarrow> 'a list" where
  "make_receivers participant_ids = rev (swap_middle participant_ids)"

text \<open>Line 46: \<open>zip(participant_ids, receivers)\<close>, the (santa, receiver) pairs in order.\<close>

definition assign_pairs :: "'a list \<Rightarrow> ('a \<times> 'a) list" where
  "assign_pairs participant_ids = zip participant_ids (make_receivers participant_ids)"

text \<open>
  Lines 34 to 46 as one function of the id list. \<open>random.shuffle\<close> is the parameter
  \<open>shuffle\<close>: any function whose result is a rearrangement of its argument.
\<close>

definition compute_assignment :: "('a list \<Rightarrow> 'a list) \<Rightarrow> 'a list \<Rightarrow> ('a \<times> 'a) list" where
  "compute_assignment shuffle ids = assign_pairs (shuffle ids)"

text \<open>
  The receiver sequence as section 4.1 of the specification words it (steps 2 and 3):
  R is P reversed, then for an odd length R[0] and R[len/2] are exchanged.
\<close>

definition spec_receivers :: "'a list \<Rightarrow> 'a list" where
  "spec_receivers P =
     (let R = rev P in
      if length P mod 2 \<noteq> 0
      then (R[0 := R ! (length P div 2)])[length P div 2 := R ! 0]
      else R)"

section \<open>services/pairing.py: generate_pairs\<close>

text \<open>
  The second component of the result of \<open>generate_pairs\<close>, one constructor for each
  message text of the source: line 24 (at least three participants are needed), line 31
  (the draw was already made for this event), line 55 (success), line 60 (the pairs could
  not be generated) and line 64 (an error during the draw).
\<close>

datatype message =
  MsgMinParticipants | MsgAlreadyPaired | MsgSuccess | MsgGenerateFailed | MsgError

text \<open>
  The loop of lines 46 and 47. \<open>fails k\<close> says whether the commit number \<open>k\<close> of this
  call of \<open>generate_pairs\<close> raises (commits are counted from 0); the exception leaves the
  loop at once.
\<close>

fun persist_pairs ::
  "(nat \<Rightarrow> bool) \<Rightarrow> nat \<Rightarrow> int \<Rightarrow> (int \<times> int) list \<Rightarrow> session \<Rightarrow> db_error option \<times> session" where
  "persist_pairs fails k event_id [] s = (None, s)"
| "persist_pairs fails k event_id ((santa, receiver) # rest) s =
     (case create_santa_pair (fails k) s event_id santa receiver of
        (Some e, s1) \<Rightarrow> (Some e, s1)
      | (None, s1) \<Rightarrow> persist_pairs fails (Suc k) event_id rest s1)"

text \<open>
  \<open>generate_pairs\<close> on the durable database \<open>d\<close>: the result pair of the source and
  the durable database after \<open>db.close()\<close>. The exceptions modelled are those of the
  commits; the queries are taken to return, so the outer handler of lines 62 to 64 and
  its message are never reached.
\<close>

definition generate_pairs ::
  "(int list \<Rightarrow> int list) \<Rightarrow> (nat \<Rightarrow> bool) \<Rightarrow> database \<Rightarrow> int \<Rightarrow> (bool \<times> message) \<times> database" where
  "generate_pairs shuffle fails d event_id =
     (let db = SessionLocal d;
          ps = participants_of (work db) event_id
      in if length ps < 3 then ((False, MsgMinParticipants), db_close db)
         else let existing_pairs = length (pairs_of (work db) event_id)
         in if existing_pairs > 0 then ((False, MsgAlreadyPaired), db_close db)
         else let participant_ids = shuffle (map p_id ps);
                  receivers = make_receivers participant_ids
         in case persist_pairs fails 0 event_id (zip participant_ids receivers) db of
              (Some e, db1) \<Rightarrow> ((False, MsgGenerateFailed), db_close (db_rollback db1))
            | (None, db1) \<Rightarrow>
                (case get_event (work db1) event_id of
                   None \<Rightarrow> ((True, MsgSuccess), db_close db1)
                 | Some event \<Rightarrow>
                     (case db_commit (fails (length participant_ids))
                             (db1\<lparr>work := set_status event_id ''in_progress'' (work db1)\<rparr>) of
                        (Some e, db2) \<Rightarrow> ((False, MsgGenerateFailed), db_close (db_rollback db2))
                      | (None, db2) \<Rightarrow> ((True, MsgSuccess), db_close db2))))"

section \<open>services/pairing.py: get_recipient_info\<close>

text \<open>
  The dictionary that \<open>get_recipient_info\<close> returns, one field for each of its keys
  \<open>name\<close>, \<open>username\<close>, \<open>wishes\<close>, \<open>address\<close> and \<open>delivery_methods\<close>.
\<close>

record recipient_info =
  r_name :: string
  r_username :: string
  r_wishes :: string
  r_address :: string
  r_delivery_methods :: string

text \<open>
  The two placeholder literals of lines 84 to 87, Russian for "not given" in the singular
  (username, address) and in the plural (wishes, delivery methods), written here in
  Latin letters.
\<close>

definition not_given :: string where
  "not_given = ''ne ukazan''"

definition not_given_pl :: string where
  "not_given_pl = ''ne ukazany''"

text \<open>Python's \<open>x or default\<close> on an optional string: \<open>None\<close> and the empty string are falsy.\<close>

definition or_default :: "string option \<Rightarrow> string \<Rightarrow> string" where
  "or_default x dflt = (case x of None \<Rightarrow> dflt | Some v \<Rightarrow> if v \<noteq> [] then v else dflt)"

definition at_username :: "string option \<Rightarrow> string" where
  "at_username x = (case x of None \<Rightarrow> not_given | Some v \<Rightarrow> if v \<noteq> [] then ''@'' @ v else not_given)"

text \<open>
  \<open>.first()\<close> takes the first matching row; \<open>pair.receiver\<close> is the participant whose
  primary key is \<open>receiver_id\<close>, or \<open>None\<close>. Every exception is answered by \<open>None\<close>
  (line 90), so the function has no raising branch.
\<close>

definition first_pair_of_santa :: "database \<Rightarrow> int \<Rightarrow> int \<Rightarrow> SantaPair option" where
  "first_pair_of_santa d event_id participant_id =
     find (\<lambda>sp. sp_event_id sp = event_id \<and> santa_id sp = participant_id) (santa_pairs d)"

definition get_recipient_info :: "database \<Rightarrow> int \<Rightarrow> int \<Rightarrow> recipient_info option" where
  "get_recipient_info d participant_id event_id =
     (case first_pair_of_santa d event_id participant_id of
        None \<Rightarrow> None
      | Some pair \<Rightarrow>
          (case get_participant d (receiver_id pair) of
             None \<Rightarrow> None
           | Some receiver \<Rightarrow>
               Some \<lparr>r_name = first_name receiver,
                     r_username = at_username (username receiver),
                     r_wishes = or_default (wishes receiver) not_given_pl,
                     r_address = or_default (address receiver) not_given,
                     r_delivery_methods = or_default (delivery_methods receiver) not_given_pl\<rparr>))"

section \<open>services/pairing.py: send_pairing_notifications\<close>

text \<open>
  What one run of the loop of lines 124 to 148 leaves behind, in order: a message handed
  to the bot for a chat id, or an error written to the log for a santa id. \<open>deliver pair\<close>
  says whether \<open>bot.send_message\<close> returns for this pair (otherwise it raises). A pair
  without recipient information is passed over silently; a pair whose santa row is missing
  raises on \<open>pair.santa.telegram_id\<close>, which the same handler logs.
\<close>

datatype notification = Sent int recipient_info | ErrorLogged int

fun notify_pairs ::
  "(SantaPair \<Rightarrow> bool) \<Rightarrow> database \<Rightarrow> int \<Rightarrow> SantaPair list \<Rightarrow> notification list" where
  "notify_pairs deliver d event_id [] = []"
| "notify_pairs deliver d event_id (pair # rest) =
     (case get_recipient_info d (santa_id pair) event_id of
        None \<Rightarrow> notify_pairs deliver d event_id rest
      | Some info \<Rightarrow>
          (case get_participant d (santa_id pair) of
             None \<Rightarrow> ErrorLogged (santa_id pair) # notify_pairs deliver d event_id rest
           | Some santa \<Rightarrow>
               if deliver pair
               then Sent (telegram_id santa) info # notify_pairs deliver d event_id rest
               else ErrorLogged (santa_id pair) # notify_pairs deliver d event_id rest))"

definition send_pairing_notifications ::
  "(SantaPair \<Rightarrow> bool) \<Rightarrow> database \<Rightarrow> int \<Rightarrow> notification list" where
  "send_pairing_notifications deliver d event_id = notify_pairs deliver d event_id (pairs_of d event_id)"

section \<open>handlers/admin.py: start_pairing\<close>

text \<open>
  The answer the handler sends to the administrator: the event was not found (line 421),
  registration is still open (line 426), fewer than three participants with their number
  (line 434), the message of a successful \<open>generate_pairs\<close> (line 451), the message of a
  failed one (line 456), or the text of an exception (line 459).
\<close>

datatype answer =
  AnsEventNotFound | AnsRegistrationOpen | AnsTooFewParticipants nat
  | AnsDone message | AnsFailed message | AnsException

text \<open>
  The handler returns its answer, the notifications of this run and the durable database.
  \<open>now\<close> is the value of \<open>datetime.now()\<close>; \<open>commit_raises\<close> says whether the handler's
  own commit of line 449 raises.
\<close>

definition start_pairing ::
  "(int list \<Rightarrow> int list) \<Rightarrow> (nat \<Rightarrow> bool) \<Rightarrow> bool \<Rightarrow> (SantaPair \<Rightarrow> bool) \<Rightarrow> int \<Rightarrow> database \<Rightarrow> int
     \<Rightarrow> answer \<times> notification list \<times> database" where
  "start_pairing shuffle fails commit_raises deliver now d event_id =
     (case get_event d event_id of
        None \<Rightarrow> (AnsEventNotFound, [], d)
      | Some event \<Rightarrow>
          if registration_end event > now then (AnsRegistrationOpen, [], d)
          else if length (participants_of d (ev_id event)) < 3
          then (AnsTooFewParticipants (length (participants_of d (ev_id event))), [], d)
          else
            (case generate_pairs shuffle fails d event_id of
               ((True, msg), d1) \<Rightarrow>
                 (let notes = send_pairing_notifications deliver d1 event_id;
                      db = SessionLocal d1
                  in case db_commit commit_raises
                            (db\<lparr>work := set_status event_id ''in_progress'' (work db)\<rparr>) of
                       (Some e, db1) \<Rightarrow> (AnsException, notes, db_close db1)
                     | (None, db1) \<Rightarrow> (AnsDone msg, notes, db_close db1))
             | ((False, msg), d1) \<Rightarrow> (AnsFailed msg, [], d1)))"

section \<open>services/notifications.py: the status changes of the periodic check\<close>

text \<open>
  The status updates of the periodic check (the group messages it sends are caught and
  logged inside \<open>_notify_group\<close> and touch no table). Each of the two queries reads the
  clock itself: \<open>now1\<close> and \<open>now2\<close>. The commits of lines 165 and 187 are taken to succeed.
\<close>

definition mark_started :: "int \<Rightarrow> database \<Rightarrow> database" where
  "mark_started now d =
     (let events_started = get_events_with_active_registration now d
                             (minutes (- 5)) (Some (minutes (- 10))) (Some ''registration'')
      in fold (\<lambda>event. set_status (ev_id event) ''in_progress'') events_started d)"

definition mark_ended :: "int \<Rightarrow> database \<Rightarrow> database" where
  "mark_ended now d =
     (let events_ended = get_events_with_upcoming_deadline now d
                           (minutes (- 5)) (Some (minutes (- 10))) (Some ''in_progress'')
      in fold (\<lambda>event. set_status (ev_id event) ''completed'') events_ended d)"

definition check_event_status_changes :: "int \<Rightarrow> int \<Rightarrow> database \<Rightarrow> database" where
  "check_event_status_changes now1 now2 d = mark_ended now2 (mark_started now1 d)"

section \<open>Example data\<close>

text \<open>
  A database with two events in registration: event 1, whose registration ended at time 0,
  with three participants, and event 2, still open, with two.
\<close>

definition participant_row :: "int \<Rightarrow> int \<Rightarrow> int \<Rightarrow> string \<Rightarrow> string option \<Rightarrow> Participant" where
  "participant_row i e t n w =
     \<lparr>p_id = i, p_event_id = e, telegram_id = t, username = None, first_name = n,
      last_name = None, wishes = w, address = None, delivery_methods = None\<rparr>"

definition demo_events :: "Event list" where
  "demo_events =
     [\<lparr>ev_id = 1, status = ''registration'', registration_end = 0, shipping_deadline = days 30\<rparr>,
      \<lparr>ev_id = 2, status = ''registration'', registration_end = days 10, shipping_deadline = days 40\<rparr>]"

definition demo_participants :: "Participant list" where
  "demo_participants =
     [participant_row 1 1 101 ''Ann'' (Some ''books''),
      participant_row 2 1 102 ''Bob'' None,
      participant_row 3 1 103 ''Eve'' (Some []),
      participant_row 4 2 104 ''Dan'' None,
      participant_row 5 2 105 ''Joy'' None]"

definition demo_db :: database where
  "demo_db = \<lparr>events = demo_events, participants = demo_participants, santa_pairs = []\<rparr>"

text \<open>The pairs that the unshuffled id list [1, 2, 3] of event 1 gives.\<close>

definition demo_pairs :: "SantaPair list" where
  "demo_pairs =
     [\<lparr>sp_id = 1, sp_event_id = 1, santa_id = 1, receiver_id = 3\<rparr>,
      \<lparr>sp_id = 2, sp_event_id = 1, santa_id = 2, receiver_id = 1\<rparr>,
      \<lparr>sp_id = 3, sp_event_id = 1, santa_id = 3, receiver_id = 2\<rparr>]"

definition demo_paired :: database where
  "demo_paired =
     \<lparr>events =
        [\<lparr>ev_id = 1, status = ''in_progress'', registration_end = 0, shipping_deadline = days 30\<rparr>,
         \<lparr>ev_id = 2, status = ''registration'', registration_end = days 10, shipping_deadline = days 40\<rparr>],
      participants = demo_participants, santa_pairs = demo_pairs\<rparr>"

text \<open>Event 1 with the first of these pairs only.\<close>

definition demo_partial :: database where
  "demo_partial =
     demo_db\<lparr>santa_pairs := [\<lparr>sp_id = 1, sp_event_id = 1, santa_id = 1, receiver_id = 3\<rparr>]\<rparr>"

section \<open>Properties of the assignment\<close>

lemma length_swap_middle [simp]: "length (swap_middle xs) = length xs"
  by (simp add: swap_middle_def)

lemma mset_swap_middle [simp]: "mset (swap_middle xs) = mset xs"
proof (cases "length xs mod 2 \<noteq> 0")
  case True
  then have "0 < length xs" by (cases xs) auto
  then have "length xs div 2 < length xs" by simp
  with \<open>0 < length xs\<close> True show ?thesis
    unfolding swap_middle_def using mset_swap [of 0 xs "length xs div 2"] by simp
next
  case False
  then show ?thesis by (simp add: swap_middle_def)
qed

lemma swap_middle_nth:
  assumes "j < length xs"
  shows "swap_middle xs ! j =
     (if length xs mod 2 \<noteq> 0
      then (if j = 0 then xs ! (length xs div 2)
            else if j = length xs div 2 then xs ! 0 else xs ! j)
      else xs ! j)"
  using assms by (auto simp: swap_middle_def nth_list_update)

lemma make_receivers_nth:
  assumes "i < length xs"
  shows "make_receivers xs ! i = swap_middle xs ! (length xs - Suc i)"
  using assms by (simp add: make_receivers_def rev_nth)

lemma distinct_nth_neq:
  "distinct xs \<Longrightarrow> i < length xs \<Longrightarrow> j < length xs \<Longrightarrow> i \<noteq> j \<Longrightarrow> xs ! i \<noteq> xs ! j"
  by (simp add: nth_eq_iff_index_eq)

lemma no_self_nth:
  assumes d: "distinct xs" and n: "3 \<le> length xs" and i: "i < length xs"
  shows "xs ! i \<noteq> make_receivers xs ! i"
proof -
  let ?n = "length xs"
  let ?j = "?n - Suc i"
  have j: "?j < ?n" using i by simp
  have eq: "make_receivers xs ! i = swap_middle xs ! ?j"
    using i by (rule make_receivers_nth)
  show ?thesis
  proof (cases "?n mod 2 \<noteq> 0")
    case odd: True
    have m: "?n div 2 < ?n" "0 < ?n div 2" using n by auto
    consider "?j = 0" | "?j \<noteq> 0" "?j = ?n div 2" | "?j \<noteq> 0" "?j \<noteq> ?n div 2" by blast
    then show ?thesis
    proof cases
      case 1
      then have "i \<noteq> ?n div 2" using i n by presburger
      then have "xs ! i \<noteq> xs ! (?n div 2)"
        using d i m(1) by (rule_tac distinct_nth_neq)
      moreover have "swap_middle xs ! ?j = xs ! (?n div 2)"
        using 1 odd j by (simp add: swap_middle_nth)
      ultimately show ?thesis by (simp add: eq)
    next
      case 2
      then have "i \<noteq> 0" using i n odd by presburger
      then have "xs ! i \<noteq> xs ! 0"
        using d i by (rule_tac distinct_nth_neq) auto
      moreover have "swap_middle xs ! ?j = xs ! 0"
        using 2 odd j by (simp add: swap_middle_nth)
      ultimately show ?thesis by (simp add: eq)
    next
      case 3
      then have "i \<noteq> ?j" using i odd by presburger
      then have "xs ! i \<noteq> xs ! ?j"
        using d i j by (rule_tac distinct_nth_neq)
      moreover have "swap_middle xs ! ?j = xs ! ?j"
        using 3 odd j by (simp add: swap_middle_nth)
      ultimately show ?thesis by (simp add: eq)
    qed
  next
    case False
    then have "i \<noteq> ?j" using i by presburger
    then have "xs ! i \<noteq> xs ! ?j"
      using d i j by (rule_tac distinct_nth_neq)
    moreover have "swap_middle xs ! ?j = xs ! ?j"
      using False j by (simp add: swap_middle_nth)
    ultimately show ?thesis by (simp add: eq)
  qed
qed

lemma assign_pairs_no_self:
  assumes "distinct xs" "3 \<le> length xs" "(g, r) \<in> set (assign_pairs xs)"
  shows "g \<noteq> r"
proof -
  from assms(3) obtain i where i: "i < length xs" "g = xs ! i" "r = make_receivers xs ! i"
    by (auto simp: assign_pairs_def set_zip make_receivers_def)
  with no_self_nth [OF assms(1,2) i(1)] show ?thesis by simp
qed

lemma map_fst_assign_pairs: "map fst (assign_pairs xs) = xs"
  by (simp add: assign_pairs_def make_receivers_def)

lemma map_snd_assign_pairs: "map snd (assign_pairs xs) = make_receivers xs"
  by (simp add: assign_pairs_def make_receivers_def)

lemma mset_make_receivers: "mset (make_receivers xs) = mset xs"
  by (simp add: make_receivers_def)

lemma make_receivers_alt:
  "make_receivers P =
     (if length P mod 2 \<noteq> 0
      then ((rev P)[length P - 1 := rev P ! (length P div 2)])
             [length P div 2 := rev P ! (length P - 1)]
      else rev P)"
proof (cases "length P mod 2 \<noteq> 0")
  case False
  then show ?thesis by (simp add: make_receivers_def swap_middle_def)
next
  case True
  let ?n = "length P"
  have pos: "0 < ?n" using True by (cases P) auto
  have m: "?n div 2 < ?n" using pos by simp
  have mm: "?n - Suc (?n div 2) = ?n div 2" using True by presburger
  have "rev ((P[?n div 2 := P ! 0])[0 := P ! (?n div 2)]) =
        ((rev P)[?n - 1 := rev P ! (?n div 2)])[?n div 2 := rev P ! (?n - 1)]"
  proof (cases "?n div 2 = ?n - Suc 0")
    case True
    then have "?n = 1" using pos mm by presburger
    then obtain x where "P = [x]" by (cases P) auto
    then show ?thesis by simp
  next
    case False
    then show ?thesis using pos m mm
      by (simp add: rev_update rev_nth list_update_swap [of "?n div 2" "?n - Suc 0"])
  qed
  with True show ?thesis by (simp add: make_receivers_def swap_middle_def)
qed


section \<open>Properties of generate_pairs\<close>

lemma persist_pairs_ok:
  "persist_pairs fails k e prs s = (None, s') \<Longrightarrow>
     \<exists>new. work s' = (work s)\<lparr>santa_pairs := santa_pairs (work s) @ new\<rparr> \<and>
           map (\<lambda>sp. (santa_id sp, receiver_id sp)) new = prs \<and>
           (\<forall>sp \<in> set new. sp_event_id sp = e) \<and>
           (if prs = [] then s' = s else store s' = work s')"
proof (induction prs arbitrary: k s)
  case Nil
  then show ?case by simp
next
  case (Cons pr prs)
  obtain santa receiver where pr: "pr = (santa, receiver)" by (cases pr)
  let ?row = "\<lparr>sp_id = next_pair_id (work s), sp_event_id = e,
                santa_id = santa, receiver_id = receiver\<rparr>"
  let ?s1 = "s\<lparr>work := (work s)\<lparr>santa_pairs := santa_pairs (work s) @ [?row]\<rparr>,
                store := (work s)\<lparr>santa_pairs := santa_pairs (work s) @ [?row]\<rparr>\<rparr>"
  from Cons.prems pr have nf: "\<not> fails k"
    by (auto simp: create_santa_pair_def db_commit_def Let_def split: if_splits)
  with Cons.prems pr have rest: "persist_pairs fails (Suc k) e prs ?s1 = (None, s')"
    by (simp add: create_santa_pair_def db_commit_def Let_def)
  from Cons.IH [OF rest] obtain new where new:
    "work s' = (work ?s1)\<lparr>santa_pairs := santa_pairs (work ?s1) @ new\<rparr>"
    "map (\<lambda>sp. (santa_id sp, receiver_id sp)) new = prs"
    "\<forall>sp \<in> set new. sp_event_id sp = e"
    "if prs = [] then s' = ?s1 else store s' = work s'"
    by blast
  have "work s' = (work s)\<lparr>santa_pairs := santa_pairs (work s) @ (?row # new)\<rparr>"
    using new(1) by simp
  moreover have "map (\<lambda>sp. (santa_id sp, receiver_id sp)) (?row # new) = pr # prs"
    using new(2) pr by simp
  moreover have "\<forall>sp \<in> set (?row # new). sp_event_id sp = e"
    using new(3) by simp
  moreover have "store s' = work s'"
    using new(4) by (cases "prs = []") simp_all
  ultimately show ?case by (intro exI [of _ "?row # new"]) simp
qed

lemma persist_pairs_no_faults:
  "(\<And>j. \<not> fails j) \<Longrightarrow> \<exists>s'. persist_pairs fails k e prs s = (None, s')"
proof (induction prs arbitrary: k s)
  case Nil
  then show ?case by simp
next
  case (Cons pr prs)
  obtain santa receiver where pr: "pr = (santa, receiver)" by (cases pr)
  show ?case using Cons.prems Cons.IH pr
    by (simp add: create_santa_pair_def db_commit_def Let_def)
qed


lemma get_event_pairs_irrelevant [simp]:
  "get_event (d\<lparr>santa_pairs := ps\<rparr>) e = get_event d e"
  by (simp add: get_event_def)

lemma participants_of_pairs_irrelevant [simp]:
  "participants_of (d\<lparr>santa_pairs := ps\<rparr>) e = participants_of d e"
  by (simp add: participants_of_def)

lemma participants_of_set_status [simp]:
  "participants_of (set_status e' st d) e = participants_of d e"
  by (simp add: participants_of_def set_status_def)

lemma pairs_of_set_status [simp]:
  "pairs_of (set_status e' st d) e = pairs_of d e"
  by (simp add: pairs_of_def set_status_def)

lemma generate_pairs_success:
  assumes run: "generate_pairs shuffle fails d e = ((True, m), d1)"
  shows "3 \<le> length (participants_of d e) \<and> pairs_of d e = [] \<and> m = MsgSuccess \<and>
         (\<exists>new. map (\<lambda>sp. (santa_id sp, receiver_id sp)) new =
                  compute_assignment shuffle (map p_id (participants_of d e)) \<and>
                (\<forall>sp \<in> set new. sp_event_id sp = e) \<and>
                d1 = (if get_event d e = None then d\<lparr>santa_pairs := santa_pairs d @ new\<rparr>
                      else set_status e ''in_progress'' (d\<lparr>santa_pairs := santa_pairs d @ new\<rparr>)))"
proof -
  let ?ps = "participants_of d e"
  let ?P = "shuffle (map p_id ?ps)"
  let ?prs = "zip ?P (make_receivers ?P)"
  have n3: "3 \<le> length ?ps"
    using run by (auto simp: generate_pairs_def SessionLocal_def db_close_def Let_def split: if_splits)
  have nopairs: "pairs_of d e = []"
    using run n3 by (auto simp: generate_pairs_def SessionLocal_def db_close_def Let_def split: if_splits)
  obtain r s' where pp: "persist_pairs fails 0 e ?prs (SessionLocal d) = (r, s')"
    by (cases "persist_pairs fails 0 e ?prs (SessionLocal d)")
  have r: "r = None"
  proof (cases r)
    case (Some err)
    with run n3 nopairs pp show ?thesis
      by (simp add: generate_pairs_def SessionLocal_def Let_def)
  qed simp
  from persist_pairs_ok [OF pp [unfolded r]] obtain new where new:
    "work s' = d\<lparr>santa_pairs := santa_pairs d @ new\<rparr>"
    "map (\<lambda>sp. (santa_id sp, receiver_id sp)) new = ?prs"
    "\<forall>sp \<in> set new. sp_event_id sp = e"
    "if ?prs = [] then s' = SessionLocal d else store s' = work s'"
    by (auto simp: SessionLocal_def)
  have st: "store s' = work s'"
    using new(4) by (cases "?prs = []") (simp_all add: SessionLocal_def)
  have body: "((True, m), d1) =
     (case get_event d e of
        None \<Rightarrow> ((True, MsgSuccess), db_close s')
      | Some event \<Rightarrow>
          (case db_commit (fails (length ?P)) (s'\<lparr>work := set_status e ''in_progress'' (work s')\<rparr>) of
             (Some err, db2) \<Rightarrow> ((False, MsgGenerateFailed), db_close (db_rollback db2))
           | (None, db2) \<Rightarrow> ((True, MsgSuccess), db_close db2)))"
    using run n3 nopairs pp r new(1)
    by (simp add: generate_pairs_def Let_def SessionLocal_def)
  have "m = MsgSuccess \<and>
        d1 = (if get_event d e = None then d\<lparr>santa_pairs := santa_pairs d @ new\<rparr>
              else set_status e ''in_progress'' (d\<lparr>santa_pairs := santa_pairs d @ new\<rparr>))"
    using body st new(1)
    by (auto simp: db_close_def db_commit_def split: option.splits if_splits)
  with n3 nopairs new(2,3) show ?thesis
    by (auto simp: compute_assignment_def assign_pairs_def)
qed


lemma generate_pairs_min:
  "length (participants_of d e) < 3 \<Longrightarrow>
   generate_pairs shuffle fails d e = ((False, MsgMinParticipants), d)"
  by (simp add: generate_pairs_def SessionLocal_def db_close_def Let_def)

lemma generate_pairs_already:
  "3 \<le> length (participants_of d e) \<Longrightarrow> pairs_of d e \<noteq> [] \<Longrightarrow>
   generate_pairs shuffle fails d e = ((False, MsgAlreadyPaired), d)"
  by (simp add: generate_pairs_def SessionLocal_def db_close_def Let_def)

lemma generate_pairs_no_faults:
  assumes "3 \<le> length (participants_of d e)" and "pairs_of d e = []" and "\<And>k. \<not> fails k"
  shows "fst (generate_pairs shuffle fails d e) = (True, MsgSuccess)"
proof -
  let ?P = "shuffle (map p_id (participants_of d e))"
  from persist_pairs_no_faults [of fails 0 e "zip ?P (make_receivers ?P)" "SessionLocal d"] assms(3)
  obtain s' where "persist_pairs fails 0 e (zip ?P (make_receivers ?P)) (SessionLocal d) = (None, s')"
    by blast
  with assms show ?thesis
    by (simp add: generate_pairs_def Let_def SessionLocal_def db_commit_def split: option.splits)
qed

lemma persist_pairs_participants:
  "persist_pairs fails k e prs s = (r, s') \<Longrightarrow>
   participants (work s) = ps \<Longrightarrow> participants (store s) = ps \<Longrightarrow>
   participants (work s') = ps \<and> participants (store s') = ps"
proof (induction prs arbitrary: k s)
  case Nil
  then show ?case by simp
next
  case (Cons pr prs)
  obtain santa receiver where pr: "pr = (santa, receiver)" by (cases pr)
  show ?case
  proof (cases "fails k")
    case True
    with Cons.prems pr show ?thesis
      by (auto simp: create_santa_pair_def db_commit_def Let_def)
  next
    case False
    let ?row = "\<lparr>sp_id = next_pair_id (work s), sp_event_id = e,
                  santa_id = santa, receiver_id = receiver\<rparr>"
    let ?s1 = "s\<lparr>work := (work s)\<lparr>santa_pairs := santa_pairs (work s) @ [?row]\<rparr>,
                  store := (work s)\<lparr>santa_pairs := santa_pairs (work s) @ [?row]\<rparr>\<rparr>"
    from Cons.prems(1) pr False
    have rest: "persist_pairs fails (Suc k) e prs ?s1 = (r, s')"
      by (simp add: create_santa_pair_def db_commit_def Let_def)
    from Cons.IH [OF rest] Cons.prems(2) show ?thesis by simp
  qed
qed

lemma generate_pairs_participants:
  assumes "generate_pairs shuffle fails d e = (r, d1)"
  shows "participants d1 = participants d"
proof -
  let ?P = "shuffle (map p_id (participants_of d e))"
  obtain q s' where pp:
    "persist_pairs fails 0 e (zip ?P (make_receivers ?P)) (SessionLocal d) = (q, s')"
    by (cases "persist_pairs fails 0 e (zip ?P (make_receivers ?P)) (SessionLocal d)")
  from persist_pairs_participants [OF pp, of "participants d"]
  have "participants (work s') = participants d" "participants (store s') = participants d"
    by (simp_all add: SessionLocal_def)
  with assms pp show ?thesis
    by (auto simp: generate_pairs_def Let_def SessionLocal_def db_close_def db_rollback_def
          db_commit_def set_status_def split: if_splits option.splits)
qed

lemma rerun_after_stored_pairs:
  assumes run: "generate_pairs shuffle fails d e = (r, d1)"
      and before: "pairs_of d e = []"
      and after: "pairs_of d1 e \<noteq> []"
  shows "generate_pairs shuffle' fails' d1 e = ((False, MsgAlreadyPaired), d1)"
proof -
  have n3: "3 \<le> length (participants_of d e)"
  proof (rule ccontr)
    assume "\<not> 3 \<le> length (participants_of d e)"
    then have "length (participants_of d e) < 3" by simp
    from generate_pairs_min [OF this, of shuffle fails] run have "d1 = d" by simp
    with before after show False by simp
  qed
  have "participants_of d1 e = participants_of d e"
    using generate_pairs_participants [OF run] by (simp add: participants_of_def)
  with n3 have "3 \<le> length (participants_of d1 e)" by simp
  then show ?thesis using after by (rule generate_pairs_already)
qed

lemma rerun_after_success:
  assumes shuffled: "mset (shuffle (map p_id (participants_of d e))) =
                     mset (map p_id (participants_of d e))"
      and first: "generate_pairs shuffle fails d e = ((True, m), d1)"
  shows "generate_pairs shuffle' fails' d1 e = ((False, MsgAlreadyPaired), d1)"
proof -
  let ?ids = "map p_id (participants_of d e)"
  from generate_pairs_success [OF first] obtain new where
    n3: "3 \<le> length (participants_of d e)" and
    none: "pairs_of d e = []" and
    new: "map (\<lambda>sp. (santa_id sp, receiver_id sp)) new = compute_assignment shuffle ?ids"
         "\<forall>sp \<in> set new. sp_event_id sp = e" and
    d1: "d1 = (if get_event d e = None then d\<lparr>santa_pairs := santa_pairs d @ new\<rparr>
               else set_status e ''in_progress'' (d\<lparr>santa_pairs := santa_pairs d @ new\<rparr>))"
    by blast
  have "length (shuffle ?ids) = length ?ids" using shuffled by (metis size_mset)
  then have "length (compute_assignment shuffle ?ids) = length (participants_of d e)"
    by (simp add: compute_assignment_def assign_pairs_def make_receivers_def)
  then have "length new = length (participants_of d e)"
    using new(1) by (metis length_map)
  with n3 have "new \<noteq> []" by auto
  then obtain sp rest where "new = sp # rest" by (cases new) auto
  with new(2) have "pairs_of (d\<lparr>santa_pairs := santa_pairs d @ new\<rparr>) e \<noteq> []"
    by (simp add: pairs_of_def)
  with d1 have "pairs_of d1 e \<noteq> []" by (simp split: if_splits)
  with first none show ?thesis by (rule rerun_after_stored_pairs)
qed

section \<open>Properties of the status changes\<close>

lemma fold_set_status:
  "fold (\<lambda>event. set_status (ev_id event) st) evs d =
     d\<lparr>events := map (\<lambda>x. if ev_id x \<in> ev_id ` set evs then x\<lparr>status := st\<rparr> else x) (events d)\<rparr>"
proof (induction evs arbitrary: d)
  case Nil
  then show ?case by simp
next
  case (Cons ev evs)
  show ?case
    by (simp add: Cons.IH) (auto simp: set_status_def)
qed

lemma find_map_id_preserving:
  assumes "\<And>x. ev_id (f x) = ev_id x"
  shows "find (\<lambda>x. ev_id x = e) (map f xs) = map_option f (find (\<lambda>x. ev_id x = e) xs)"
  using assms by (induction xs) auto

lemma get_event_set_status:
  "get_event (set_status e st d) e' =
     map_option (\<lambda>x. if ev_id x = e then x\<lparr>status := st\<rparr> else x) (get_event d e')"
  unfolding get_event_def set_status_def
  by (simp add: find_map_id_preserving)

lemma get_event_Some_D: "get_event d e = Some ev \<Longrightarrow> ev \<in> set (events d) \<and> ev_id ev = e"
  unfolding get_event_def by (auto simp: find_Some_iff)

lemma mark_started_flips:
  assumes ev: "get_event d e = Some ev"
      and st: "status ev = ''registration''"
      and lo: "now - minutes 10 \<le> registration_end ev"
      and hi: "registration_end ev \<le> now - minutes 5"
  shows "get_event (mark_started now d) e = Some (ev\<lparr>status := ''in_progress''\<rparr>)"
proof -
  let ?started = "get_events_with_active_registration now d
                    (minutes (- 5)) (Some (minutes (- 10))) (Some ''registration'')"
  from ev have mem: "ev \<in> set (events d)" and id: "ev_id ev = e"
    by (auto dest: get_event_Some_D)
  have "in_window now (minutes (- 5)) (Some (minutes (- 10))) (registration_end ev)"
    using lo hi by (simp add: in_window_def minutes_def days_def)
  moreover have "status_matches (Some ''registration'') ev"
    using st by (simp add: status_matches_def)
  ultimately have "ev \<in> set ?started"
    using mem by (simp add: get_events_with_active_registration_def)
  then have "e \<in> ev_id ` set ?started" using id by force
  moreover have "get_event (mark_started now d) e =
     map_option (\<lambda>x. if ev_id x \<in> ev_id ` set ?started then x\<lparr>status := ''in_progress''\<rparr> else x)
       (get_event d e)"
    unfolding mark_started_def Let_def fold_set_status get_event_def
    by (simp add: find_map_id_preserving)
  ultimately show ?thesis using ev id by simp
qed

section \<open>Properties of the notifications\<close>

lemma notify_pairs_outcome:
  assumes "pair \<in> set prs"
      and "get_recipient_info d (santa_id pair) e = Some info"
      and "get_participant d (santa_id pair) = Some santa"
  shows "(if deliver pair then Sent (telegram_id santa) info else ErrorLogged (santa_id pair))
           \<in> set (notify_pairs deliver d e prs)"
  using assms
proof (induction prs)
  case Nil
  then show ?case by simp
next
  case (Cons p prs)
  show ?case
  proof (cases "pair = p")
    case True
    with Cons.prems show ?thesis by simp
  next
    case False
    with Cons.prems have "pair \<in> set prs" by simp
    from Cons.IH [OF this Cons.prems(2,3)] show ?thesis
      by (auto split: option.splits)
  qed
qed

lemma start_pairing_deliver_irrelevant:
  "fst (start_pairing shuffle fails cr deliver now d e) =
   fst (start_pairing shuffle fails cr deliver' now d e) \<and>
   snd (snd (start_pairing shuffle fails cr deliver now d e)) =
   snd (snd (start_pairing shuffle fails cr deliver' now d e))"
  by (simp add: start_pairing_def Let_def split: option.splits prod.splits bool.splits)

lemma first_pair_none_iff:
  "first_pair_of_santa d e p = None \<longleftrightarrow>
     \<not> (\<exists>sp \<in> set (santa_pairs d). sp_event_id sp = e \<and> santa_id sp = p)"
  by (auto simp: first_pair_of_santa_def find_None_iff)

lemma first_pair_none_before_pairing:
  "pairs_of d e = [] \<Longrightarrow> first_pair_of_santa d e p = None"
  by (auto simp: first_pair_none_iff pairs_of_def filter_empty_conv)

section \<open>Evaluation of the example data\<close>

lemmas demo_defs = demo_partial_def demo_db_def demo_events_def demo_participants_def
  participant_row_def demo_pairs_def demo_paired_def days_def minutes_def

lemmas run_defs = generate_pairs_def SessionLocal_def participants_of_def pairs_of_def
  make_receivers_def swap_middle_def create_santa_pair_def db_commit_def db_rollback_def
  db_close_def next_pair_id_def get_event_def set_status_def Let_def

lemmas info_defs = get_recipient_info_def first_pair_of_santa_def get_participant_def
  at_username_def or_default_def

lemma demo_first_run:
  "generate_pairs id (\<lambda>k. False) demo_db 1 = ((True, MsgSuccess), demo_paired)"
  by (simp add: demo_defs run_defs)

lemma demo_failed_run:
  "generate_pairs id (\<lambda>k. k = 1) demo_db 1 = ((False, MsgGenerateFailed), demo_partial)"
  by (simp add: demo_partial_def demo_defs run_defs)

section \<open>Claims about the assignment\<close>

text \<open>
  Claim C2. For every list of at least three distinct participant ids and every outcome
  of the shuffle (any rearrangement of the list), no pair of the computed assignment has
  the same participant as giver and as receiver.
\<close>

theorem no_self_pairing:
  assumes "distinct ids" and "3 \<le> length ids" and "mset (shuffle ids) = mset ids"
  shows "\<forall>(giver, receiver) \<in> set (compute_assignment shuffle ids). giver \<noteq> receiver"
proof -
  have "distinct (shuffle ids)"
    using assms(1,3) by (metis mset_eq_imp_distinct_iff)
  moreover have "3 \<le> length (shuffle ids)"
    using assms(2,3) by (metis size_mset)
  ultimately show ?thesis
    unfolding compute_assignment_def by (auto dest: assign_pairs_no_self)
qed

theorem no_self_pairing_witness:
  "distinct [1, 2, 3 :: int] \<and> 3 \<le> length [1, 2, 3 :: int] \<and>
   mset (rev [1, 2, 3 :: int]) = mset [1, 2, 3] \<and>
   compute_assignment rev [1, 2, 3 :: int] = [(3, 1), (2, 3), (1, 2)] \<and>
   list_all (\<lambda>(giver, receiver). giver \<noteq> receiver) (compute_assignment rev [1, 2, 3 :: int])"
proof -
  have "\<forall>(giver, receiver) \<in> set (compute_assignment rev [1, 2, 3 :: int]). giver \<noteq> receiver"
    using no_self_pairing [of "[1, 2, 3 :: int]" rev] by simp
  then have "list_all (\<lambda>(giver, receiver). giver \<noteq> receiver) (compute_assignment rev [1, 2, 3 :: int])"
    by (simp only: list_all_iff)
  moreover have "compute_assignment rev [1, 2, 3 :: int] = [(3, 1), (2, 3), (1, 2)]"
    by (simp add: compute_assignment_def assign_pairs_def make_receivers_def swap_middle_def)
  ultimately show ?thesis by simp
qed

text \<open>
  Claim C3. For every list of at least three distinct participant ids and every outcome
  of the shuffle, the computed assignment has as many pairs as there are ids, its givers
  are exactly the input ids and so are its receivers, and no id occurs twice as giver or
  twice as receiver.
\<close>

theorem assignment_covers_participants:
  assumes "distinct ids" and "3 \<le> length ids" and "mset (shuffle ids) = mset ids"
  shows "length (compute_assignment shuffle ids) = length ids \<and>
         set (map fst (compute_assignment shuffle ids)) = set ids \<and>
         set (map snd (compute_assignment shuffle ids)) = set ids \<and>
         distinct (map fst (compute_assignment shuffle ids)) \<and>
         distinct (map snd (compute_assignment shuffle ids))"
proof -
  let ?P = "shuffle ids"
  have len: "length ?P = length ids" using assms(3) by (metis size_mset)
  have dP: "distinct ?P" using assms(1,3) by (metis mset_eq_imp_distinct_iff)
  have sP: "set ?P = set ids" using assms(3) by (metis set_mset_mset)
  have mR: "mset (make_receivers ?P) = mset ids"
    using assms(3) by (simp add: mset_make_receivers)
  have dR: "distinct (make_receivers ?P)" using assms(1) mR by (metis mset_eq_imp_distinct_iff)
  have sR: "set (make_receivers ?P) = set ids" using mR by (metis set_mset_mset)
  have "length (compute_assignment shuffle ids) = length ids"
    using len by (simp add: compute_assignment_def assign_pairs_def make_receivers_def)
  with dP sP dR sR show ?thesis
    by (simp add: compute_assignment_def map_fst_assign_pairs map_snd_assign_pairs)
qed

theorem assignment_covers_participants_witness:
  "distinct [1, 2, 3, 4 :: int] \<and> 3 \<le> length [1, 2, 3, 4 :: int] \<and>
   mset (rev [1, 2, 3, 4 :: int]) = mset [1, 2, 3, 4] \<and>
   length (compute_assignment rev [1, 2, 3, 4 :: int]) = 4 \<and>
   set (map fst (compute_assignment rev [1, 2, 3, 4 :: int])) = {1, 2, 3, 4} \<and>
   set (map snd (compute_assignment rev [1, 2, 3, 4 :: int])) = {1, 2, 3, 4}"
  using assignment_covers_participants [of "[1, 2, 3, 4 :: int]" rev]
  by simp

text \<open>
  Claim C7, as stated: the receivers are the shuffled list reversed and then, for an odd
  length, with the entries at 0 and at len/2 exchanged. This fails on the list [1, 2, 3]:
  the source exchanges first and reverses afterwards, which gives the receivers [3, 1, 2]
  where the stated order of the steps gives [2, 3, 1].
\<close>

theorem receivers_differ_from_reverse_then_swap:
  "make_receivers [1, 2, 3 :: int] = [3, 1, 2] \<and> spec_receivers [1, 2, 3 :: int] = [2, 3, 1] \<and>
   assign_pairs [1, 2, 3 :: int] \<noteq> zip [1, 2, 3] (spec_receivers [1, 2, 3])"
  by (simp add: make_receivers_def swap_middle_def spec_receivers_def assign_pairs_def)

text \<open>
  Claim C7, amended. The receivers are the shuffled list P with, for an odd length, its
  entries at 0 and at len/2 exchanged, and then reversed: that is, P reversed with, for an
  odd length, the entries at len - 1 and at len/2 exchanged. For an even length this is
  the receiver sequence of the stated steps.
\<close>

theorem receivers_swap_then_reverse:
  "make_receivers P =
     (if length P mod 2 \<noteq> 0
      then ((rev P)[length P - 1 := rev P ! (length P div 2)])
             [length P div 2 := rev P ! (length P - 1)]
      else spec_receivers P)"
  using make_receivers_alt [of P] by (simp add: spec_receivers_def)

theorem receivers_swap_then_reverse_witness:
  "make_receivers [1, 2, 3 :: int] = [3, 1, 2] \<and> make_receivers [1, 2, 3, 4 :: int] = [4, 3, 2, 1]"
  using receivers_swap_then_reverse [of "[1, 2, 3 :: int]"]
        receivers_swap_then_reverse [of "[1, 2, 3, 4 :: int]"]
  by (simp add: spec_receivers_def)

section \<open>Claims about generate_pairs\<close>

text \<open>
  Claim C1 says that a failure partway through persisting the pairs leaves the event in
  status registration with no pair stored. On the example database, with the second
  commit of the run raising, \<open>generate_pairs\<close> reports failure and the event keeps its
  status, but the pair committed by the first \<open>create_santa_pair\<close> stays stored: the
  rollback of line 58 undoes the pending row only.
\<close>

theorem partial_pairs_after_failed_commit:
  "generate_pairs id (\<lambda>k. k = 1) demo_db 1 =
     ((False, MsgGenerateFailed),
      demo_db\<lparr>santa_pairs := [\<lparr>sp_id = 1, sp_event_id = 1, santa_id = 1, receiver_id = 3\<rparr>]\<rparr>) \<and>
   pairs_of demo_db 1 = [] \<and>
   length (pairs_of (snd (generate_pairs id (\<lambda>k. k = 1) demo_db 1)) 1) = 1"
  by (simp add: demo_defs run_defs)

text \<open>
  The same run with the commit of the status raising instead: all three pairs stay
  stored and the event stays in registration.
\<close>

lemma pairs_without_status_after_failed_commit:
  "generate_pairs id (\<lambda>k. k = 3) demo_db 1 =
     ((False, MsgGenerateFailed), demo_db\<lparr>santa_pairs := demo_pairs\<rparr>)"
  by (simp add: demo_defs run_defs)

text \<open>
  Claim C4. A run of \<open>generate_pairs\<close> on an event that has a stored pair returns the
  already-paired failure and leaves the database as it is, same pairs and same status,
  whatever its shuffle and its commit failures would be. The check of the pair count comes
  after the check of the participant count (lines 23 and 30), so the first part is stated
  for an event with at least three participants; the second part shows that this is the
  case after every run, successful or failed, that has left a pair for an event that had
  none; the third part is the same for a first run that succeeded.
\<close>

theorem second_pairing_rejected:
  "(3 \<le> length (participants_of d event_id) \<and> pairs_of d event_id \<noteq> [] \<longrightarrow>
      generate_pairs shuffle fails d event_id = ((False, MsgAlreadyPaired), d)) \<and>
   (generate_pairs shuffle fails d event_id = (r, d1) \<and>
    pairs_of d event_id = [] \<and> pairs_of d1 event_id \<noteq> [] \<longrightarrow>
      generate_pairs shuffle' fails' d1 event_id = ((False, MsgAlreadyPaired), d1)) \<and>
   (mset (shuffle (map p_id (participants_of d event_id))) =
      mset (map p_id (participants_of d event_id)) \<and>
    generate_pairs shuffle fails d event_id = ((True, m), d2) \<longrightarrow>
      generate_pairs shuffle' fails' d2 event_id = ((False, MsgAlreadyPaired), d2))"
proof (intro conjI impI)
  assume "3 \<le> length (participants_of d event_id) \<and> pairs_of d event_id \<noteq> []"
  then show "generate_pairs shuffle fails d event_id = ((False, MsgAlreadyPaired), d)"
    by (simp add: generate_pairs_already)
next
  assume "generate_pairs shuffle fails d event_id = (r, d1) \<and>
          pairs_of d event_id = [] \<and> pairs_of d1 event_id \<noteq> []"
  then show "generate_pairs shuffle' fails' d1 event_id = ((False, MsgAlreadyPaired), d1)"
    by (blast intro: rerun_after_stored_pairs)
next
  assume "mset (shuffle (map p_id (participants_of d event_id))) =
            mset (map p_id (participants_of d event_id)) \<and>
          generate_pairs shuffle fails d event_id = ((True, m), d2)"
  then show "generate_pairs shuffle' fails' d2 event_id = ((False, MsgAlreadyPaired), d2)"
    by (blast intro: rerun_after_success)
qed

theorem second_pairing_rejected_witness:
  "3 \<le> length (participants_of demo_partial 1) \<and> pairs_of demo_partial 1 \<noteq> [] \<and>
   generate_pairs rev (\<lambda>k. False) demo_partial 1 = ((False, MsgAlreadyPaired), demo_partial) \<and>
   generate_pairs id (\<lambda>k. k = 1) demo_db 1 = ((False, MsgGenerateFailed), demo_partial) \<and>
   pairs_of demo_db 1 = [] \<and>
   generate_pairs id (\<lambda>k. False) demo_partial 1 = ((False, MsgAlreadyPaired), demo_partial) \<and>
   mset (id (map p_id (participants_of demo_db 1))) = mset (map p_id (participants_of demo_db 1)) \<and>
   generate_pairs id (\<lambda>k. False) demo_db 1 = ((True, MsgSuccess), demo_paired) \<and>
   generate_pairs rev (\<lambda>k. False) demo_paired 1 = ((False, MsgAlreadyPaired), demo_paired)"
proof -
  have a: "3 \<le> length (participants_of demo_partial 1)" "pairs_of demo_partial 1 \<noteq> []"
          "pairs_of demo_db 1 = []"
    by (simp_all add: participants_of_def pairs_of_def demo_defs)
  have sh: "mset (id (map p_id (participants_of demo_db 1))) = mset (map p_id (participants_of demo_db 1))"
    by simp
  have t1: "generate_pairs rev (\<lambda>k. False) demo_partial 1 = ((False, MsgAlreadyPaired), demo_partial)"
    using second_pairing_rejected [of demo_partial 1 rev "\<lambda>k. False"] a by blast
  have t2: "generate_pairs id (\<lambda>k. False) demo_partial 1 = ((False, MsgAlreadyPaired), demo_partial)"
    using second_pairing_rejected
            [of demo_db 1 id "\<lambda>k. k = 1" "(False, MsgGenerateFailed)" demo_partial id "\<lambda>k. False"]
          demo_failed_run a
    by blast
  have t3: "generate_pairs rev (\<lambda>k. False) demo_paired 1 = ((False, MsgAlreadyPaired), demo_paired)"
    using second_pairing_rejected
            [of demo_db 1 id "\<lambda>k. False" _ _ rev "\<lambda>k. False" MsgSuccess demo_paired]
          demo_first_run sh
    by blast
  from a sh t1 t2 t3 demo_failed_run demo_first_run show ?thesis by simp
qed

text \<open>
  Claim C5. On an event with fewer than three participants \<open>generate_pairs\<close> returns the
  too-few-participants failure and the database is unchanged: no pair is stored and no
  status is touched.
\<close>

theorem too_few_participants_rejected:
  assumes "length (participants_of d event_id) < 3"
  shows "generate_pairs shuffle fails d event_id = ((False, MsgMinParticipants), d)"
  using assms by (rule generate_pairs_min)

theorem too_few_participants_rejected_witness:
  "length (participants_of demo_db 2) = 2 \<and>
   generate_pairs rev (\<lambda>k. False) demo_db 2 = ((False, MsgMinParticipants), demo_db)"
proof -
  have n: "length (participants_of demo_db 2) = 2"
    by (simp add: participants_of_def demo_defs)
  then have "length (participants_of demo_db 2) < 3" by simp
  from too_few_participants_rejected [OF this] n show ?thesis by simp
qed

text \<open>
  Claim C6. When the event id does not resolve, the pairing operation that the
  administrator starts, the handler \<open>start_pairing\<close>, answers that the event was not
  found, and with no other failure; nothing is stored and nobody is notified. The check
  of lines 419 to 422 comes before the call of \<open>generate_pairs\<close>, which is made from
  this handler only.
\<close>

theorem unknown_event_rejected_by_handler:
  assumes "get_event d event_id = None"
  shows "start_pairing shuffle fails commit_raises deliver now d event_id = (AnsEventNotFound, [], d)"
  using assms by (simp add: start_pairing_def)

theorem unknown_event_rejected_by_handler_witness:
  "get_event demo_db 7 = None \<and>
   start_pairing id (\<lambda>k. False) False (\<lambda>p. True) 5 demo_db 7 = (AnsEventNotFound, [], demo_db)"
proof -
  have h: "get_event demo_db 7 = None" by (simp add: get_event_def demo_defs)
  from unknown_event_rejected_by_handler [OF h, of id "\<lambda>k. False" False "\<lambda>p. True" 5] h
  show ?thesis by simp
qed

text \<open>
  Claim C8, as stated: pairing runs only in status registration and is the only operation
  that moves an event from registration to in_progress. On the example database the
  periodic check of the notification service, run seven minutes after the end of
  registration, moves event 1 to in_progress with no pair stored, and \<open>generate_pairs\<close>
  then runs and succeeds on that event in status in_progress.
\<close>

theorem status_moved_without_pairing:
  "get_event demo_db 1 =
     Some \<lparr>ev_id = 1, status = ''registration'', registration_end = 0, shipping_deadline = days 30\<rparr> \<and>
   get_event (check_event_status_changes (minutes 7) (minutes 8) demo_db) 1 =
     Some \<lparr>ev_id = 1, status = ''in_progress'', registration_end = 0, shipping_deadline = days 30\<rparr> \<and>
   pairs_of (check_event_status_changes (minutes 7) (minutes 8) demo_db) 1 = [] \<and>
   fst (generate_pairs id (\<lambda>k. False)
          (check_event_status_changes (minutes 7) (minutes 8) demo_db) 1) = (True, MsgSuccess)"
  by (simp add: demo_defs run_defs check_event_status_changes_def mark_started_def mark_ended_def
        get_events_with_active_registration_def get_events_with_upcoming_deadline_def
        in_window_def status_matches_def)

text \<open>
  Claim C8, amended. \<open>generate_pairs\<close> does not read the status of the event: with at
  least three participants, no stored pair and no failing commit it succeeds; it succeeds
  only when no pair is stored for the event; and after a success an existing event is in
  status in_progress. It is not the only operation with that effect: the first loop of
  the periodic status check moves an event in status registration whose registration
  ended between ten and five minutes before to in_progress.
\<close>

theorem pairing_gate_is_pair_count:
  "(3 \<le> length (participants_of d e) \<and> pairs_of d e = [] \<and> (\<forall>k. \<not> fails k) \<longrightarrow>
      fst (generate_pairs shuffle fails d e) = (True, MsgSuccess)) \<and>
   (generate_pairs shuffle fails d e = ((True, m), d1) \<longrightarrow>
      pairs_of d e = [] \<and>
      (\<forall>ev. get_event d e = Some ev \<longrightarrow> get_event d1 e = Some (ev\<lparr>status := ''in_progress''\<rparr>))) \<and>
   (get_event d e = Some ev' \<and> status ev' = ''registration'' \<and>
    now - minutes 10 \<le> registration_end ev' \<and> registration_end ev' \<le> now - minutes 5 \<longrightarrow>
      get_event (mark_started now d) e = Some (ev'\<lparr>status := ''in_progress''\<rparr>))"
proof (intro conjI impI)
  assume "3 \<le> length (participants_of d e) \<and> pairs_of d e = [] \<and> (\<forall>k. \<not> fails k)"
  then show "fst (generate_pairs shuffle fails d e) = (True, MsgSuccess)"
    by (simp add: generate_pairs_no_faults)
next
  assume run: "generate_pairs shuffle fails d e = ((True, m), d1)"
  from generate_pairs_success [OF run] show "pairs_of d e = []" by blast
  show "\<forall>ev. get_event d e = Some ev \<longrightarrow> get_event d1 e = Some (ev\<lparr>status := ''in_progress''\<rparr>)"
  proof (intro allI impI)
    fix ev assume ev: "get_event d e = Some ev"
    from generate_pairs_success [OF run] ev obtain new where
      "d1 = set_status e ''in_progress'' (d\<lparr>santa_pairs := santa_pairs d @ new\<rparr>)"
      by auto
    moreover have "ev_id ev = e" using ev by (auto dest: get_event_Some_D)
    ultimately show "get_event d1 e = Some (ev\<lparr>status := ''in_progress''\<rparr>)"
      using ev by (simp add: get_event_set_status)
  qed
next
  assume "get_event d e = Some ev' \<and> status ev' = ''registration'' \<and>
    now - minutes 10 \<le> registration_end ev' \<and> registration_end ev' \<le> now - minutes 5"
  then show "get_event (mark_started now d) e = Some (ev'\<lparr>status := ''in_progress''\<rparr>)"
    by (simp add: mark_started_flips)
qed

theorem pairing_gate_is_pair_count_witness:
  "3 \<le> length (participants_of (set_status 1 ''in_progress'' demo_db) 1) \<and>
   pairs_of (set_status 1 ''in_progress'' demo_db) 1 = [] \<and>
   fst (generate_pairs id (\<lambda>k. False) (set_status 1 ''in_progress'' demo_db) 1) = (True, MsgSuccess) \<and>
   generate_pairs id (\<lambda>k. False) demo_db 1 = ((True, MsgSuccess), demo_paired) \<and>
   get_event demo_db 1 = Some (hd demo_events) \<and>
   get_event demo_paired 1 = Some ((hd demo_events)\<lparr>status := ''in_progress''\<rparr>) \<and>
   status (hd demo_events) = ''registration'' \<and>
   minutes 7 - minutes 10 \<le> registration_end (hd demo_events) \<and>
   registration_end (hd demo_events) \<le> minutes 7 - minutes 5 \<and>
   get_event (mark_started (minutes 7) demo_db) 1 = Some ((hd demo_events)\<lparr>status := ''in_progress''\<rparr>)"
proof -
  have a: "3 \<le> length (participants_of (set_status 1 ''in_progress'' demo_db) 1)"
          "pairs_of (set_status 1 ''in_progress'' demo_db) 1 = []"
    by (simp_all add: participants_of_def pairs_of_def set_status_def demo_defs)
  note b = demo_first_run
  have c: "get_event demo_db 1 = Some (hd demo_events)"
          "status (hd demo_events) = ''registration''"
          "minutes 7 - minutes 10 \<le> registration_end (hd demo_events)"
          "registration_end (hd demo_events) \<le> minutes 7 - minutes 5"
    by (simp_all add: get_event_def demo_defs)
  have t1: "fst (generate_pairs id (\<lambda>k. False) (set_status 1 ''in_progress'' demo_db) 1) = (True, MsgSuccess)"
    using pairing_gate_is_pair_count
            [of "set_status 1 ''in_progress'' demo_db" 1 "\<lambda>k. False" id MsgSuccess demo_paired
                "hd demo_events" "minutes 7"] a
    by simp
  have t2: "get_event demo_paired 1 = Some ((hd demo_events)\<lparr>status := ''in_progress''\<rparr>)"
    using pairing_gate_is_pair_count
            [of demo_db 1 "\<lambda>k. False" id MsgSuccess demo_paired "hd demo_events" "minutes 7"] b c(1)
    by simp
  have t3: "get_event (mark_started (minutes 7) demo_db) 1 =
              Some ((hd demo_events)\<lparr>status := ''in_progress''\<rparr>)"
    using pairing_gate_is_pair_count
            [of demo_db 1 "\<lambda>k. False" id MsgSuccess demo_paired "hd demo_events" "minutes 7"] c
    by simp
  from a b c t1 t2 t3 show ?thesis by simp
qed

section \<open>Claims about the notifications\<close>

text \<open>
  Claim C9. A failed delivery for one pair is logged and passed over: every pair of the
  event whose recipient information and santa resolve leaves its own outcome in the run,
  a sent message when its delivery works and a logged error when it fails, whatever
  happens to the other pairs; and the answer of \<open>start_pairing\<close> and the database it
  leaves are the same as when every delivery works.
\<close>

theorem notification_failures_isolated:
  assumes "pair \<in> set (pairs_of d event_id)"
      and "get_recipient_info d (santa_id pair) event_id = Some info"
      and "get_participant d (santa_id pair) = Some santa"
  shows "(if deliver pair then Sent (telegram_id santa) info else ErrorLogged (santa_id pair))
           \<in> set (send_pairing_notifications deliver d event_id) \<and>
         fst (start_pairing shuffle fails commit_raises deliver now d0 event_id) =
         fst (start_pairing shuffle fails commit_raises (\<lambda>p. True) now d0 event_id) \<and>
         snd (snd (start_pairing shuffle fails commit_raises deliver now d0 event_id)) =
         snd (snd (start_pairing shuffle fails commit_raises (\<lambda>p. True) now d0 event_id))"
  using notify_pairs_outcome [OF assms [unfolded pairs_of_def], of deliver]
        start_pairing_deliver_irrelevant [of shuffle fails commit_raises deliver now d0 event_id "\<lambda>p. True"]
  by (simp add: send_pairing_notifications_def pairs_of_def)

theorem notification_failures_isolated_witness:
  "hd demo_pairs \<in> set (pairs_of demo_paired 1) \<and>
   get_participant demo_paired (santa_id (hd demo_pairs)) = Some (hd demo_participants) \<and>
   ErrorLogged 1 \<in> set (send_pairing_notifications (\<lambda>p. santa_id p \<noteq> 1) demo_paired 1) \<and>
   Sent 101 \<lparr>r_name = ''Eve'', r_username = not_given, r_wishes = not_given_pl,
             r_address = not_given, r_delivery_methods = not_given_pl\<rparr>
     \<in> set (send_pairing_notifications (\<lambda>p. santa_id p \<noteq> 2) demo_paired 1) \<and>
   start_pairing id (\<lambda>k. False) False (\<lambda>p. santa_id p \<noteq> 1) 5 demo_db 1 =
     (AnsDone MsgSuccess,
      [ErrorLogged 1,
       Sent 102 \<lparr>r_name = ''Ann'', r_username = not_given, r_wishes = ''books'',
                 r_address = not_given, r_delivery_methods = not_given_pl\<rparr>,
       Sent 103 \<lparr>r_name = ''Bob'', r_username = not_given, r_wishes = not_given_pl,
                 r_address = not_given, r_delivery_methods = not_given_pl\<rparr>],
      demo_paired)"
proof -
  let ?info = "\<lparr>r_name = ''Eve'', r_username = not_given, r_wishes = not_given_pl,
                r_address = not_given, r_delivery_methods = not_given_pl\<rparr>"
  have p: "hd demo_pairs \<in> set (pairs_of demo_paired 1)"
    by (simp add: pairs_of_def demo_defs)
  have i: "get_recipient_info demo_paired (santa_id (hd demo_pairs)) 1 = Some ?info"
    by (simp add: info_defs demo_defs)
  have s: "get_participant demo_paired (santa_id (hd demo_pairs)) = Some (hd demo_participants)"
    by (simp add: get_participant_def demo_defs)
  have t: "telegram_id (hd demo_participants) = 101" "santa_id (hd demo_pairs) = 1"
    by (simp_all add: demo_defs)
  have a: "ErrorLogged 1 \<in> set (send_pairing_notifications (\<lambda>p. santa_id p \<noteq> 1) demo_paired 1)"
    using notification_failures_isolated [OF p i s, of "\<lambda>p. santa_id p \<noteq> 1"] t by simp
  have b: "Sent 101 ?info \<in> set (send_pairing_notifications (\<lambda>p. santa_id p \<noteq> 2) demo_paired 1)"
    using notification_failures_isolated [OF p i s, of "\<lambda>p. santa_id p \<noteq> 2"] t by simp
  have c: "start_pairing id (\<lambda>k. False) False (\<lambda>p. santa_id p \<noteq> 1) 5 demo_db 1 =
     (AnsDone MsgSuccess,
      [ErrorLogged 1,
       Sent 102 \<lparr>r_name = ''Ann'', r_username = not_given, r_wishes = ''books'',
                 r_address = not_given, r_delivery_methods = not_given_pl\<rparr>,
       Sent 103 \<lparr>r_name = ''Bob'', r_username = not_given, r_wishes = not_given_pl,
                 r_address = not_given, r_delivery_methods = not_given_pl\<rparr>],
      demo_paired)"
    by (simp add: start_pairing_def send_pairing_notifications_def info_defs demo_defs run_defs)
  from p s a b c show ?thesis by simp
qed

text \<open>
  Claim C10. \<open>get_recipient_info\<close> always returns: it gives \<open>None\<close> when no pair of the
  event has the participant as santa, in particular for every participant while the event
  has no pair, and when the receiver of the first such pair is missing; otherwise it gives
  the receiver's first name, the username behind an at sign, the wishes, the address and
  the delivery methods, each optional field that is absent or empty replaced by its fixed
  placeholder.
\<close>

theorem get_recipient_info_cases:
  "(\<not> (\<exists>sp \<in> set (santa_pairs d). sp_event_id sp = event_id \<and> santa_id sp = participant_id) \<longrightarrow>
      get_recipient_info d participant_id event_id = None) \<and>
   (pairs_of d event_id = [] \<longrightarrow> get_recipient_info d participant_id event_id = None) \<and>
   (\<forall>pair. first_pair_of_santa d event_id participant_id = Some pair \<longrightarrow>
      get_participant d (receiver_id pair) = None \<longrightarrow>
      get_recipient_info d participant_id event_id = None) \<and>
   (\<forall>pair receiver. first_pair_of_santa d event_id participant_id = Some pair \<longrightarrow>
      get_participant d (receiver_id pair) = Some receiver \<longrightarrow>
      get_recipient_info d participant_id event_id =
        Some \<lparr>r_name = first_name receiver,
              r_username = (case username receiver of None \<Rightarrow> not_given
                            | Some u \<Rightarrow> if u = [] then not_given else ''@'' @ u),
              r_wishes = (case wishes receiver of None \<Rightarrow> not_given_pl
                          | Some w \<Rightarrow> if w = [] then not_given_pl else w),
              r_address = (case address receiver of None \<Rightarrow> not_given
                           | Some a \<Rightarrow> if a = [] then not_given else a),
              r_delivery_methods = (case delivery_methods receiver of None \<Rightarrow> not_given_pl
                                    | Some m \<Rightarrow> if m = [] then not_given_pl else m)\<rparr>)"
proof (intro conjI impI allI)
  assume "\<not> (\<exists>sp \<in> set (santa_pairs d). sp_event_id sp = event_id \<and> santa_id sp = participant_id)"
  then have "first_pair_of_santa d event_id participant_id = None"
    by (simp add: first_pair_none_iff)
  then show "get_recipient_info d participant_id event_id = None"
    by (simp add: get_recipient_info_def)
next
  assume "pairs_of d event_id = []"
  then have "first_pair_of_santa d event_id participant_id = None"
    by (rule first_pair_none_before_pairing)
  then show "get_recipient_info d participant_id event_id = None"
    by (simp add: get_recipient_info_def)
next
  fix pair
  assume "first_pair_of_santa d event_id participant_id = Some pair"
     and "get_participant d (receiver_id pair) = None"
  then show "get_recipient_info d participant_id event_id = None"
    by (simp add: get_recipient_info_def)
next
  fix pair receiver
  assume "first_pair_of_santa d event_id participant_id = Some pair"
     and "get_participant d (receiver_id pair) = Some receiver"
  then show "get_recipient_info d participant_id event_id =
        Some \<lparr>r_name = first_name receiver,
              r_username = (case username receiver of None \<Rightarrow> not_given
                            | Some u \<Rightarrow> if u = [] then not_given else ''@'' @ u),
              r_wishes = (case wishes receiver of None \<Rightarrow> not_given_pl
                          | Some w \<Rightarrow> if w = [] then not_given_pl else w),
              r_address = (case address receiver of None \<Rightarrow> not_given
                           | Some a \<Rightarrow> if a = [] then not_given else a),
              r_delivery_methods = (case delivery_methods receiver of None \<Rightarrow> not_given_pl
                                    | Some m \<Rightarrow> if m = [] then not_given_pl else m)\<rparr>"
    by (simp add: get_recipient_info_def at_username_def or_default_def split: option.splits)
qed

theorem get_recipient_info_cases_witness:
  "pairs_of demo_db 1 = [] \<and> get_recipient_info demo_db 1 1 = None \<and>
   get_recipient_info demo_paired 4 1 = None \<and>
   first_pair_of_santa (demo_paired\<lparr>participants := []\<rparr>) 1 1 = Some (hd demo_pairs) \<and>
   get_recipient_info (demo_paired\<lparr>participants := []\<rparr>) 1 1 = None \<and>
   first_pair_of_santa demo_paired 1 2 = Some (demo_pairs ! 1) \<and>
   get_participant demo_paired (receiver_id (demo_pairs ! 1)) = Some (hd demo_participants) \<and>
   get_recipient_info demo_paired 2 1 =
     Some \<lparr>r_name = ''Ann'', r_username = not_given, r_wishes = ''books'',
           r_address = not_given, r_delivery_methods = not_given_pl\<rparr>"
proof -
  note thm1 = get_recipient_info_cases [of demo_db 1 1]
  note thm2 = get_recipient_info_cases [of demo_paired 1 4]
  note thm3 = get_recipient_info_cases [of "demo_paired\<lparr>participants := []\<rparr>" 1 1]
  note thm4 = get_recipient_info_cases [of demo_paired 1 2]
  have a: "pairs_of demo_db 1 = []" by (simp add: pairs_of_def demo_defs)
  have b: "\<not> (\<exists>sp \<in> set (santa_pairs demo_paired). sp_event_id sp = 1 \<and> santa_id sp = 4)"
    by (simp add: demo_defs)
  have c: "first_pair_of_santa (demo_paired\<lparr>participants := []\<rparr>) 1 1 = Some (hd demo_pairs)"
          "get_participant (demo_paired\<lparr>participants := []\<rparr>) (receiver_id (hd demo_pairs)) = None"
    by (simp_all add: first_pair_of_santa_def get_participant_def demo_defs)
  have e: "first_pair_of_santa demo_paired 1 2 = Some (demo_pairs ! 1)"
          "get_participant demo_paired (receiver_id (demo_pairs ! 1)) = Some (hd demo_participants)"
    by (simp_all add: first_pair_of_santa_def get_participant_def demo_defs)
  have r1: "get_recipient_info demo_db 1 1 = None" using thm1 a by blast
  have r2: "get_recipient_info demo_paired 4 1 = None" using thm2 b by blast
  have r3: "get_recipient_info (demo_paired\<lparr>participants := []\<rparr>) 1 1 = None"
    using thm3 c by blast
  have r4: "get_recipient_info demo_paired 2 1 =
     Some \<lparr>r_name = ''Ann'', r_username = not_given, r_wishes = ''books'',
           r_address = not_given, r_delivery_methods = not_given_pl\<rparr>"
  proof -
    from thm4 e have "get_recipient_info demo_paired 2 1 =
        Some \<lparr>r_name = first_name (hd demo_participants),
              r_username = (case username (hd demo_participants) of None \<Rightarrow> not_given
                            | Some u \<Rightarrow> if u = [] then not_given else ''@'' @ u),
              r_wishes = (case wishes (hd demo_participants) of None \<Rightarrow> not_given_pl
                          | Some w \<Rightarrow> if w = [] then not_given_pl else w),
              r_address = (case address (hd demo_participants) of None \<Rightarrow> not_given
                           | Some a \<Rightarrow> if a = [] then not_given else a),
              r_delivery_methods = (case delivery_methods (hd demo_participants) of None \<Rightarrow> not_given_pl
                                    | Some m \<Rightarrow> if m = [] then not_given_pl else m)\<rparr>"
      by blast
    then show ?thesis by (simp add: demo_participants_def participant_row_def)
  qed
  from a c(1) e r1 r2 r3 r4 show ?thesis by simp
qed

end
